theory Spec2Isabelle
  imports Complex_Main "HOL-Library.Word"
begin

unbundle bit_operations_syntax

section \<open>Python values, bytes and exceptions\<close>

text \<open>
  The driver \<^verbatim>\<open>xantrex-service.py\<close> reads RV-C frames from a CAN socket and publishes
  decoded values on D-Bus. A payload is a \<^verbatim>\<open>bytes\<close>/\<^verbatim>\<open>memoryview\<close> object: a list of
  8-bit values. Python integers are unbounded and are modelled as \<open>int\<close>; Python floats
  are idealised as \<open>real\<close> (no rounding error of the binary representation).
  Exceptions are values of type \<open>exn\<close>.
\<close>

type_synonym byte = "8 word"
type_synonym bytes = "byte list"

datatype exn = IndexError | StructError | KeyError | ValueError | OSError | TypeError

datatype byteorder = Little | Big

datatype pyval =
    PNone
  | PInt int
  | PFloat real
  | PBool bool
  | PStr bytes
  | PEmptyList
  | PMatch bytes

text \<open>\<^verbatim>\<open>data[offset]\<close>: a negative index counts from the end, out of range raises.\<close>

definition py_getitem :: "bytes \<Rightarrow> int \<Rightarrow> exn + byte" where
  "py_getitem data i =
     (let n = int (length data); j = (if i < 0 then n + i else i)
      in if 0 \<le> j \<and> j < n then Inr (data ! nat j) else Inl IndexError)"

text \<open>
  \<^verbatim>\<open>Struct.unpack_from(data, offset)\<close> for a format of \<open>sz\<close> bytes, as CPython does it:
  a negative offset is counted from the end and must leave \<open>sz\<close> bytes; the bytes read
  are returned, anything else raises \<^verbatim>\<open>struct.error\<close>.
\<close>

definition unpack_from :: "nat \<Rightarrow> bytes \<Rightarrow> int \<Rightarrow> exn + bytes" where
  "unpack_from sz data offset =
     (let n = int (length data) in
      if offset < 0 then
        (if offset + int sz > 0 then Inl StructError
         else if offset + n < 0 then Inl StructError
         else Inr (take sz (drop (nat (offset + n)) data)))
      else if n - offset < int sz then Inl StructError
      else Inr (take sz (drop (nat offset) data)))"

text \<open>The unsigned value of a run of bytes, least significant byte first.\<close>

fun le_uint :: "bytes \<Rightarrow> int" where
  "le_uint [] = 0"
| "le_uint (b # bs) = uint b + 256 * le_uint bs"

definition uint_of :: "byteorder \<Rightarrow> bytes \<Rightarrow> int" where
  "uint_of bo bs = (case bo of Little \<Rightarrow> le_uint bs | Big \<Rightarrow> le_uint (rev bs))"

text \<open>Two's complement reading of a \<open>w\<close>-bit unsigned value (formats \<^verbatim>\<open>b\<close>, \<^verbatim>\<open>h\<close>, \<^verbatim>\<open>i\<close>).\<close>

definition to_signed :: "nat \<Rightarrow> int \<Rightarrow> int" where
  "to_signed w u = (if u \<ge> 2 ^ (w - 1) then u - 2 ^ w else u)"

definition UNPACK_U16 :: "byteorder \<Rightarrow> bytes \<Rightarrow> int \<Rightarrow> exn + int" where
  "UNPACK_U16 bo data offset =
     (case unpack_from 2 data offset of Inl e \<Rightarrow> Inl e | Inr bs \<Rightarrow> Inr (uint_of bo bs))"

definition UNPACK_S16 :: "byteorder \<Rightarrow> bytes \<Rightarrow> int \<Rightarrow> exn + int" where
  "UNPACK_S16 bo data offset =
     (case unpack_from 2 data offset of Inl e \<Rightarrow> Inl e
      | Inr bs \<Rightarrow> Inr (to_signed 16 (uint_of bo bs)))"

definition UNPACK_U32 :: "bytes \<Rightarrow> int \<Rightarrow> exn + int" where
  "UNPACK_U32 data offset =
     (case unpack_from 4 data offset of Inl e \<Rightarrow> Inl e | Inr bs \<Rightarrow> Inr (uint_of Little bs))"

definition UNPACK_S32 :: "bytes \<Rightarrow> int \<Rightarrow> exn + int" where
  "UNPACK_S32 data offset =
     (case unpack_from 4 data offset of Inl e \<Rightarrow> Inl e
      | Inr bs \<Rightarrow> Inr (to_signed 32 (uint_of Little bs)))"

text \<open>
  \<^verbatim>\<open>round(x, n)\<close> on a float, idealised on the reals: the nearest multiple of
  \<open>10\<^sup>-\<^sup>n\<close>, a tie going to the even neighbour.
\<close>

definition py_round :: "real \<Rightarrow> nat \<Rightarrow> real" where
  "py_round x n =
     (let y = x * 10 ^ n; f = \<lfloor>y\<rfloor>; d = y - of_int f
      in of_int (if d < 1 / 2 then f else if d > 1 / 2 then f + 1
                 else if even f then f else f + 1) / 10 ^ n)"

section \<open>Sentinel-aware scalar decoders\<close>

text \<open>
  Each decoder returns \<open>Inr None\<close> for Python's \<^verbatim>\<open>None\<close> ("not available"),
  \<open>Inr (Some v)\<close> for a value and \<open>Inl e\<close> when the Python raises.
\<close>

definition safe_u8 :: "bytes \<Rightarrow> int \<Rightarrow> real \<Rightarrow> exn + pyval option" where
  "safe_u8 data offset scale =
     (if int (length data) \<le> offset then Inr None
      else case py_getitem data offset of
        Inl e \<Rightarrow> Inl e
      | Inr v \<Rightarrow>
          if v = 0xFF then Inr None
          else let result = of_int (uint v) * scale
               in Inr (Some (PFloat (if scale \<noteq> 1 then py_round result 3 else result))))"

definition safe_u16 :: "bytes \<Rightarrow> int \<Rightarrow> real \<Rightarrow> byteorder \<Rightarrow> exn + pyval option" where
  "safe_u16 data offset scale bo =
     (if int (length data) < offset + 2 then Inr None
      else case UNPACK_U16 bo data offset of
        Inl e \<Rightarrow> Inl e
      | Inr raw \<Rightarrow>
          if raw = 0xFFFF then Inr None
          else if scale = 1 then Inr (Some (PInt raw))
          else Inr (Some (PFloat (py_round (of_int raw * scale) 3))))"

definition safe_u32 :: "bytes \<Rightarrow> int \<Rightarrow> real \<Rightarrow> exn + pyval option" where
  "safe_u32 data offset scale =
     (if int (length data) < offset + 4 then Inr None
      else case UNPACK_U32 data offset of
        Inl e \<Rightarrow> Inl e
      | Inr raw \<Rightarrow>
          if raw = 0xFFFFFFFF then Inr None
          else if scale = 1 then Inr (Some (PInt raw))
          else Inr (Some (PFloat (py_round (of_int raw * scale) 3))))"

definition safe_s8 :: "bytes \<Rightarrow> int \<Rightarrow> real \<Rightarrow> exn + pyval option" where
  "safe_s8 data offset scale =
     (if int (length data) \<le> offset then Inr None
      else case py_getitem data offset of
        Inl e \<Rightarrow> Inl e
      | Inr v \<Rightarrow>
          if v = 0x7F then Inr None
          else let signed = (if v AND 0x80 \<noteq> 0 then uint v - 256 else uint v);
                   result = of_int signed * scale
               in Inr (Some (PFloat (if scale \<noteq> 1 then py_round result 3 else result))))"

definition safe_s16 :: "bytes \<Rightarrow> int \<Rightarrow> real \<Rightarrow> byteorder \<Rightarrow> exn + pyval option" where
  "safe_s16 data offset scale bo =
     (if int (length data) < offset + 2 then Inr None
      else case UNPACK_S16 bo data offset of
        Inl e \<Rightarrow> Inl e
      | Inr raw \<Rightarrow>
          if raw = 0x7FFF then Inr None
          else Inr (Some (PFloat (py_round (of_int raw * scale) 3))))"

definition safe_s32 :: "bytes \<Rightarrow> int \<Rightarrow> real \<Rightarrow> exn + pyval option" where
  "safe_s32 data offset scale =
     (if int (length data) < offset + 4 then Inr None
      else case UNPACK_S32 data offset of
        Inl e \<Rightarrow> Inl e
      | Inr raw \<Rightarrow>
          if raw = 0x7FFFFFFF then Inr None
          else Inr (Some (PFloat (py_round (of_int raw * scale) 3))))"

text \<open>
  The raw bits a decoder of \<open>sz\<close> bytes reads at an offset, as an unsigned number;
  \<open>None\<close> where the read itself is impossible.
\<close>

definition raw_bits :: "nat \<Rightarrow> byteorder \<Rightarrow> bytes \<Rightarrow> int \<Rightarrow> int option" where
  "raw_bits sz bo data offset =
     (if sz = 1 then
        (case py_getitem data offset of Inl e \<Rightarrow> None | Inr v \<Rightarrow> Some (uint v))
      else
        (case unpack_from sz data offset of Inl e \<Rightarrow> None | Inr bs \<Rightarrow> Some (uint_of bo bs)))"

section \<open>CAN identifier\<close>

text \<open>
  \<^verbatim>\<open>handle_can_frame\<close> takes the fields it needs out of the identifier
  (\<^verbatim>\<open>pgn = (can_id >> 8) & 0x3FFFF\<close>, \<^verbatim>\<open>src = can_id & 0xFF\<close>, \<^verbatim>\<open>dgn = pgn\<close>);
  nothing else of the identifier is extracted anywhere in the driver.
\<close>

record decomposed_id =
  pgn :: int
  src :: int
  dgn :: int

definition decompose_can_id :: "int \<Rightarrow> decomposed_id" where
  "decompose_can_id can_id =
     (let p = (drop_bit 8 can_id) AND 0x3FFFF
      in \<lparr>pgn = p, src = can_id AND 0xFF, dgn = p\<rparr>)"

text \<open>
  The identifier synthesized from a (priority, pgn, source address) triple, in the
  spec's words (section 8); the layout is the one in the comment of
  \<^verbatim>\<open>handle_can_frame\<close>: priority in bits 26-28, PGN in bits 8-25, source in bits 0-7.
\<close>

definition synthesize_can_id :: "int \<Rightarrow> int \<Rightarrow> int \<Rightarrow> int" where
  "synthesize_can_id priority p sa = push_bit 26 priority OR push_bit 8 p OR sa"

section \<open>Verified properties\<close>

subsection \<open>Scalar decoders\<close>

lemma uint_byte_eq: "uint (v::byte) = uint (w::byte) \<Longrightarrow> v = w"
  by (simp add: word_uint_eq_iff)

text \<open>
  Claim C1. For every byte span, offset and scale, each scalar decoder returns "not
  available" (\<open>Inr None\<close>) whenever the raw bits it reads at the offset equal the
  reserved sentinel of its width and signedness: \<open>0xFF\<close>/\<open>0x7F\<close> for 8 bits,
  \<open>0xFFFF\<close>/\<open>0x7FFF\<close> for 16 bits (in either byte order),
  \<open>0xFFFFFFFF\<close>/\<open>0x7FFFFFFF\<close> for 32 bits. The scale is arbitrary.
\<close>

theorem sentinel_not_available:
  "(raw_bits 1 bo data off = Some 0xFF \<longrightarrow> safe_u8 data off scale = Inr None) \<and>
   (raw_bits 1 bo data off = Some 0x7F \<longrightarrow> safe_s8 data off scale = Inr None) \<and>
   (raw_bits 2 bo data off = Some 0xFFFF \<longrightarrow> safe_u16 data off scale bo = Inr None) \<and>
   (raw_bits 2 bo data off = Some 0x7FFF \<longrightarrow> safe_s16 data off scale bo = Inr None) \<and>
   (raw_bits 4 Little data off = Some 0xFFFFFFFF \<longrightarrow> safe_u32 data off scale = Inr None) \<and>
   (raw_bits 4 Little data off = Some 0x7FFFFFFF \<longrightarrow> safe_s32 data off scale = Inr None)"
proof (intro conjI impI)
  assume "raw_bits 1 bo data off = Some 0xFF"
  then obtain v where v: "py_getitem data off = Inr v" "uint v = 0xFF"
    by (auto simp: raw_bits_def split: sum.splits)
  have "v = 0xFF" using v(2) uint_byte_eq[of v "0xFF"] by simp
  then show "safe_u8 data off scale = Inr None" using v(1) by (simp add: safe_u8_def)
next
  assume "raw_bits 1 bo data off = Some 0x7F"
  then obtain v where v: "py_getitem data off = Inr v" "uint v = 0x7F"
    by (auto simp: raw_bits_def split: sum.splits)
  have "v = 0x7F" using v(2) uint_byte_eq[of v "0x7F"] by simp
  then show "safe_s8 data off scale = Inr None" using v(1) by (simp add: safe_s8_def)
next
  assume "raw_bits 2 bo data off = Some 0xFFFF"
  then show "safe_u16 data off scale bo = Inr None"
    by (auto simp: raw_bits_def safe_u16_def UNPACK_U16_def split: sum.splits)
next
  assume "raw_bits 2 bo data off = Some 0x7FFF"
  then show "safe_s16 data off scale bo = Inr None"
    by (auto simp: raw_bits_def safe_s16_def UNPACK_S16_def to_signed_def split: sum.splits)
next
  assume "raw_bits 4 Little data off = Some 0xFFFFFFFF"
  then show "safe_u32 data off scale = Inr None"
    by (auto simp: raw_bits_def safe_u32_def UNPACK_U32_def split: sum.splits)
next
  assume "raw_bits 4 Little data off = Some 0x7FFFFFFF"
  then show "safe_s32 data off scale = Inr None"
    by (auto simp: raw_bits_def safe_s32_def UNPACK_S32_def to_signed_def split: sum.splits)
qed

theorem sentinel_not_available_witness:
  "safe_u8 [0x01, 0xFF] 1 0.1 = Inr None \<and>
   safe_s8 [0x7F] 0 0.5 = Inr None \<and>
   safe_u16 [0x00, 0xFF, 0xFF] 1 0.05 Little = Inr None \<and>
   safe_s16 [0x7F, 0xFF] 0 0.02 Big = Inr None \<and>
   safe_u32 [0xFF, 0xFF, 0xFF, 0xFF] 0 1 = Inr None \<and>
   safe_s32 [0xFF, 0xFF, 0xFF, 0x7F] 0 3 = Inr None"
proof -
  have r1: "raw_bits 1 Little [0x01, 0xFF] 1 = Some 0xFF"
    by (simp add: raw_bits_def py_getitem_def)
  have r2: "raw_bits 1 Little [0x7F] 0 = Some 0x7F"
    by (simp add: raw_bits_def py_getitem_def)
  have r3: "raw_bits 2 Little [0x00, 0xFF, 0xFF] 1 = Some 0xFFFF"
    by (simp add: raw_bits_def unpack_from_def uint_of_def)
  have r4: "raw_bits 2 Big [0x7F, 0xFF] 0 = Some 0x7FFF"
    by (simp add: raw_bits_def unpack_from_def uint_of_def)
  have r5: "raw_bits 4 Little [0xFF, 0xFF, 0xFF, 0xFF] 0 = Some 0xFFFFFFFF"
    by (simp add: raw_bits_def unpack_from_def uint_of_def)
  have r6: "raw_bits 4 Little [0xFF, 0xFF, 0xFF, 0x7F] 0 = Some 0x7FFFFFFF"
    by (simp add: raw_bits_def unpack_from_def uint_of_def)
  have c1: "safe_u8 [0x01, 0xFF] 1 0.1 = Inr None"
    using sentinel_not_available [of Little "[0x01, 0xFF]" 1 "0.1"] r1 by simp
  have c2: "safe_s8 [0x7F] 0 0.5 = Inr None"
    using sentinel_not_available [of Little "[0x7F]" 0 "0.5"] r2 by simp
  have c3: "safe_u16 [0x00, 0xFF, 0xFF] 1 0.05 Little = Inr None"
    using sentinel_not_available [of Little "[0x00, 0xFF, 0xFF]" 1 "0.05"] r3 by simp
  have c4: "safe_s16 [0x7F, 0xFF] 0 0.02 Big = Inr None"
    using sentinel_not_available [of Big "[0x7F, 0xFF]" 0 "0.02"] r4 by simp
  have c5: "safe_u32 [0xFF, 0xFF, 0xFF, 0xFF] 0 1 = Inr None"
    using sentinel_not_available [of Little "[0xFF, 0xFF, 0xFF, 0xFF]" 0 1] r5 by simp
  have c6: "safe_s32 [0xFF, 0xFF, 0xFF, 0x7F] 0 3 = Inr None"
    using sentinel_not_available [of Little "[0xFF, 0xFF, 0xFF, 0x7F]" 0 3] r6 by simp
  from c1 c2 c3 c4 c5 c6 show ?thesis by (intro conjI)
qed

text \<open>
  Claim C2. Each scalar decoder is total on short input: for a non-negative offset and
  a span shorter than offset plus field width it returns "not available" and does not
  raise (the result is \<open>Inr None\<close>, never \<open>Inl e\<close>).
\<close>

theorem short_span_not_available:
  assumes "0 \<le> off"
  shows "(int (length data) < off + 1 \<longrightarrow>
            safe_u8 data off scale = Inr None \<and> safe_s8 data off scale = Inr None) \<and>
         (int (length data) < off + 2 \<longrightarrow>
            safe_u16 data off scale bo = Inr None \<and> safe_s16 data off scale bo = Inr None) \<and>
         (int (length data) < off + 4 \<longrightarrow>
            safe_u32 data off scale = Inr None \<and> safe_s32 data off scale = Inr None)"
  by (simp add: safe_u8_def safe_s8_def safe_u16_def safe_s16_def safe_u32_def safe_s32_def)

theorem short_span_not_available_witness:
  "safe_u8 [] 0 0.1 = Inr None \<and> safe_s8 [0x10] 1 1 = Inr None \<and>
   safe_u16 [0x10] 0 0.05 Big = Inr None \<and> safe_s16 [0x10, 0x20] 1 1 Little = Inr None \<and>
   safe_u32 [0x10, 0x20, 0x30] 0 1 = Inr None \<and> safe_s32 [0x10, 0x20, 0x30, 0x40] 1 1 = Inr None"
proof -
  have c1: "safe_u8 [] 0 0.1 = Inr None"
    using short_span_not_available [of 0 "[]" "0.1" Big] by simp
  have c2: "safe_s8 [0x10] 1 1 = Inr None"
    using short_span_not_available [of 1 "[0x10]" 1 Big] by simp
  have c3: "safe_u16 [0x10] 0 0.05 Big = Inr None"
    using short_span_not_available [of 0 "[0x10]" "0.05" Big] by simp
  have c4: "safe_s16 [0x10, 0x20] 1 1 Little = Inr None"
    using short_span_not_available [of 1 "[0x10, 0x20]" 1 Little] by simp
  have c5: "safe_u32 [0x10, 0x20, 0x30] 0 1 = Inr None"
    using short_span_not_available [of 0 "[0x10, 0x20, 0x30]" 1 Little] by simp
  have c6: "safe_s32 [0x10, 0x20, 0x30, 0x40] 1 1 = Inr None"
    using short_span_not_available [of 1 "[0x10, 0x20, 0x30, 0x40]" 1 Little] by simp
  from c1 c2 c3 c4 c5 c6 show ?thesis by (intro conjI)
qed

subsection \<open>CAN identifier decomposition\<close>

lemma mask18: "(0x3FFFF::int) = mask 18"
  by (simp add: mask_eq_exp_minus_1)

lemma mask8: "(0xFF::int) = mask 8"
  by (simp add: mask_eq_exp_minus_1)

lemma decompose_fields:
  "pgn (decompose_can_id c) = take_bit 18 (drop_bit 8 c)"
  "src (decompose_can_id c) = take_bit 8 c"
  "dgn (decompose_can_id c) = pgn (decompose_can_id c)"
  unfolding decompose_can_id_def Let_def mask18 mask8
  by (simp_all add: take_bit_eq_mask)

lemma synth_src:
  assumes "0 \<le> sa" "sa < 256"
  shows "take_bit 8 (synthesize_can_id prio p sa) = sa"
proof -
  have "take_bit 8 sa = sa" using assms by (simp add: take_bit_int_eq_self)
  moreover have "take_bit 8 (synthesize_can_id prio p sa) = take_bit 8 sa"
    unfolding synthesize_can_id_def
    by (rule bit_eqI) (auto simp add: bit_simps)
  ultimately show ?thesis by simp
qed

lemma synth_pgn:
  assumes "0 \<le> p" "p < 2 ^ 18" "0 \<le> sa" "sa < 256"
  shows "take_bit 18 (drop_bit 8 (synthesize_can_id prio p sa)) = p"
proof -
  have sa: "take_bit 8 sa = sa" using assms by (simp add: take_bit_int_eq_self)
  have p: "take_bit 18 p = p" using assms by (simp add: take_bit_int_eq_self)
  have z: "drop_bit 8 sa = 0"
    by (metis sa drop_bit_take_bit diff_self_eq_0 take_bit_0 drop_bit_of_0 order_refl
        take_bit_drop_bit)
  have "take_bit 18 (drop_bit 8 (synthesize_can_id prio p sa)) = take_bit 18 p"
    unfolding synthesize_can_id_def
    using z by (intro bit_eqI) (auto simp add: bit_simps)
  with p show ?thesis by simp
qed

text \<open>
  Claim C3, as stated, fails: the decomposition keeps the PGN and the source address
  only, so two identifiers that differ in their priority bits alone (priority 3 and
  priority 6, PGN 0x1FFD4, source 0x42) are different identifiers with the same
  decomposition, and the priority of the triple cannot be recovered.
\<close>

theorem decompose_can_id_drops_priority:
  "decompose_can_id (synthesize_can_id 3 0x1FFD4 0x42)
     = decompose_can_id (synthesize_can_id 6 0x1FFD4 0x42)
   \<and> synthesize_can_id 3 0x1FFD4 0x42 \<noteq> synthesize_can_id 6 0x1FFD4 0x42"
  by (simp add: decompose_can_id_def synthesize_can_id_def Let_def)

text \<open>
  Claim C3, amended: for every identifier the PGN is bits 8-25, the source address is
  bits 0-7 and the DGN equals the PGN; an identifier synthesized from a priority, an
  18-bit PGN and an 8-bit source address decomposes to that PGN and that source
  address (the priority is not among the extracted fields).
\<close>

theorem decompose_can_id_round_trip:
  assumes "0 \<le> p" "p < 2 ^ 18" "0 \<le> sa" "sa < 256"
  shows "pgn (decompose_can_id c) = (c div 2 ^ 8) mod 2 ^ 18
       \<and> src (decompose_can_id c) = c mod 2 ^ 8
       \<and> dgn (decompose_can_id c) = pgn (decompose_can_id c)
       \<and> pgn (decompose_can_id (synthesize_can_id prio p sa)) = p
       \<and> src (decompose_can_id (synthesize_can_id prio p sa)) = sa
       \<and> dgn (decompose_can_id (synthesize_can_id prio p sa)) = p"
  using synth_src[OF assms(3,4)] synth_pgn[OF assms]
  by (simp add: decompose_fields take_bit_eq_mod drop_bit_eq_div)

theorem decompose_can_id_round_trip_witness:
  "pgn (decompose_can_id 0x19FFD442) = (0x19FFD442 div 2 ^ 8) mod 2 ^ 18
   \<and> src (decompose_can_id 0x19FFD442) = 0x19FFD442 mod 2 ^ 8
   \<and> dgn (decompose_can_id 0x19FFD442) = pgn (decompose_can_id 0x19FFD442)
   \<and> pgn (decompose_can_id (synthesize_can_id 6 0x1FFD4 0x42)) = 0x1FFD4
   \<and> src (decompose_can_id (synthesize_can_id 6 0x1FFD4 0x42)) = 0x42
   \<and> dgn (decompose_can_id (synthesize_can_id 6 0x1FFD4 0x42)) = 0x1FFD4"
  using decompose_can_id_round_trip [of "0x1FFD4" "0x42" "0x19FFD442" 6] by simp

end
